theory Spec2Isabelle
  imports Complex_Main
begin

section \<open>Values, errors and the student table\<close>

text \<open>
  The program is a pandas pipeline over a table of students. Python floats are modelled
  by exact real numbers; the one special float the pipeline meets, NaN (pandas' missing
  value), is \<open>None\<close> of an option type. Rounding and infinities are outside the model.
  A Python exception is a value of \<open>py_error\<close>, returned as \<open>Inl\<close>.
\<close>

datatype py_error = IndexError | KeyError | ValueError

text \<open>A list of results is a list of values unless one of them is an error; the first error wins.\<close>

fun collect :: "(py_error + 'a) list \<Rightarrow> py_error + 'a list" where
  "collect [] = Inr []"
| "collect (x # xs) =
    (case x of
       Inl e \<Rightarrow> Inl e
     | Inr v \<Rightarrow> (case collect xs of Inl e \<Rightarrow> Inl e | Inr vs \<Rightarrow> Inr (v # vs)))"

type_synonym pyfloat = "real option"

text \<open>Every comparison with NaN is false.\<close>

definition ge_f :: "pyfloat \<Rightarrow> real \<Rightarrow> bool" where
  "ge_f p b = (case p of None \<Rightarrow> False | Some x \<Rightarrow> x \<ge> b)"

text \<open>Arithmetic with NaN gives NaN.\<close>

definition mul_f :: "pyfloat \<Rightarrow> real \<Rightarrow> pyfloat" where
  "mul_f p w = (case p of None \<Rightarrow> None | Some x \<Rightarrow> Some (x * w))"

definition add_f :: "pyfloat \<Rightarrow> pyfloat \<Rightarrow> pyfloat" where
  "add_f p q = (case p of None \<Rightarrow> None | Some x \<Rightarrow> (case q of None \<Rightarrow> None | Some y \<Rightarrow> Some (x + y)))"

datatype component = Mid | Final | Ct | Assignment | Attendance

text \<open>
  One row of the Student_Data sheet, as the pipeline enriches it. The five marks columns
  are in every sheet the repository writes or documents; a blank cell is \<open>None\<close>.
  A \<open>{component}_co_mapping\<close> column need not be there at all (the template has none
  for attendance): \<open>NoColumn\<close> is the absent column, on which \<open>row[...]\<close> raises
  KeyError, and \<open>Cell\<close> holds the cell of a column that is there, blank (\<open>None\<close>) or
  a string. The numeric columns the pipeline adds under computed names
  (\<open>CO1_achievement\<close>, \<open>PO3_attainment\<close>) are read through \<open>num\<close>, and which of
  them exist is recorded once for the whole table, as pandas does.
\<close>

datatype 'a column = NoColumn | Cell 'a

record student_row =
  mid_marks :: pyfloat
  final_marks :: pyfloat
  ct_marks :: pyfloat
  assignment_marks :: pyfloat
  attendance_marks :: pyfloat
  mid_co_mapping :: "string option column"
  final_co_mapping :: "string option column"
  ct_co_mapping :: "string option column"
  assignment_co_mapping :: "string option column"
  attendance_co_mapping :: "string option column"
  grade_points :: pyfloat
  performance_cluster :: "int option"
  num :: "string \<Rightarrow> real"

record dataframe =
  columns :: "string list"
  rows :: "student_row list"

section \<open>CGPACalculator\<close>

text \<open>\<open>self.weights\<close>, keyed by component.\<close>

fun weights :: "component \<Rightarrow> real" where
  "weights Mid = 0.30"
| "weights Final = 0.40"
| "weights Ct = 0.15"
| "weights Assignment = 0.10"
| "weights Attendance = 0.05"

definition marks_to_grade :: "pyfloat \<Rightarrow> string \<times> real" where
  "marks_to_grade percentage =
    (if ge_f percentage 90 then (''A+'', 4.0)
     else if ge_f percentage 85 then (''A'', 3.7)
     else if ge_f percentage 80 then (''A-'', 3.3)
     else if ge_f percentage 75 then (''B+'', 3.0)
     else if ge_f percentage 70 then (''B'', 2.7)
     else if ge_f percentage 65 then (''B-'', 2.3)
     else if ge_f percentage 60 then (''C+'', 2.0)
     else if ge_f percentage 55 then (''C'', 1.7)
     else if ge_f percentage 50 then (''C-'', 1.3)
     else if ge_f percentage 45 then (''D+'', 1.0)
     else if ge_f percentage 40 then (''D'', 0.7)
     else (''F'', 0.0))"

definition calculate_total_marks :: "student_row \<Rightarrow> pyfloat" where
  "calculate_total_marks row =
    add_f (add_f (add_f (add_f
      (mul_f (mid_marks row) (weights Mid))
      (mul_f (final_marks row) (weights Final)))
      (mul_f (ct_marks row) (weights Ct)))
      (mul_f (assignment_marks row) (weights Assignment)))
      (mul_f (attendance_marks row) (weights Attendance))"

definition calculate_cgpa_for_student :: "student_row \<Rightarrow> pyfloat \<times> string \<times> real" where
  "calculate_cgpa_for_student row =
    (let total_marks = calculate_total_marks row;
         (grade, grade_points) = marks_to_grade total_marks
     in (total_marks, grade, grade_points))"

text \<open>
  The breakpoint table in the specification's words: a list of inclusive lower bounds,
  read with "highest match wins", and F with 0.0 when no bound matches.
\<close>

definition breakpoints :: "(real \<times> string \<times> real) list" where
  "breakpoints =
    [(90, ''A+'', 4.0), (85, ''A'', 3.7), (80, ''A-'', 3.3), (75, ''B+'', 3.0),
     (70, ''B'', 2.7), (65, ''B-'', 2.3), (60, ''C+'', 2.0), (55, ''C'', 1.7),
     (50, ''C-'', 1.3), (45, ''D+'', 1.0), (40, ''D'', 0.7)]"

fun higher :: "(real \<times> string \<times> real) \<Rightarrow> (real \<times> string \<times> real) option
    \<Rightarrow> (real \<times> string \<times> real) option" where
  "higher e None = Some e"
| "higher e (Some a) = (if fst e > fst a then Some e else Some a)"

definition highest_match :: "real \<Rightarrow> string \<times> real" where
  "highest_match p =
    (case foldr higher (filter (\<lambda>e. p \<ge> fst e) breakpoints) None of
       None \<Rightarrow> (''F'', 0.0)
     | Some e \<Rightarrow> snd e)"

subsection \<open>CO achievement\<close>

text \<open>
  \<open>str.strip\<close> removes leading and trailing whitespace. A character of the model is a
  code point below 256; there Python's whitespace characters are the codes 9 to 13,
  28 to 32, 133 (next line) and 160 (no-break space).
\<close>

definition py_isspace :: "char \<Rightarrow> bool" where
  "py_isspace c =
    (let n = (of_char c :: nat)
     in (9 \<le> n \<and> n \<le> 13) \<or> (28 \<le> n \<and> n \<le> 32) \<or> n = 133 \<or> n = 160)"

definition strip :: "string \<Rightarrow> string" where
  "strip s = rev (dropWhile py_isspace (rev (dropWhile py_isspace s)))"

text \<open>\<open>s.split(',')\<close>: the empty string splits into one empty piece.\<close>

fun split_comma :: "string \<Rightarrow> string list" where
  "split_comma [] = [[]]"
| "split_comma (c # cs) =
    (if c = CHR '','' then [] # split_comma cs
     else (case split_comma cs of
             [] \<Rightarrow> [[c]]
           | w # ws \<Rightarrow> (c # w) # ws))"

definition parse_co_mapping :: "string option \<Rightarrow> string list" where
  "parse_co_mapping co_string =
    (case co_string of
       None \<Rightarrow> []
     | Some s \<Rightarrow> if s = [] then [] else map strip (split_comma s))"

text \<open>The \<open>co_weightage\<close> table: the weight is \<open>self.weights\<close>, the maximum is fixed.\<close>

fun max_marks :: "component \<Rightarrow> real" where
  "max_marks Mid = 30"
| "max_marks Final = 40"
| "max_marks Ct = 15"
| "max_marks Assignment = 10"
| "max_marks Attendance = 5"

text \<open>The columns \<open>{component}_marks\<close> and \<open>{component}_co_mapping\<close> of a row.\<close>

fun marks_col :: "component \<Rightarrow> student_row \<Rightarrow> pyfloat" where
  "marks_col Mid row = mid_marks row"
| "marks_col Final row = final_marks row"
| "marks_col Ct row = ct_marks row"
| "marks_col Assignment row = assignment_marks row"
| "marks_col Attendance row = attendance_marks row"

fun co_col :: "component \<Rightarrow> student_row \<Rightarrow> string option column" where
  "co_col Mid row = mid_co_mapping row"
| "co_col Final row = final_co_mapping row"
| "co_col Ct row = ct_co_mapping row"
| "co_col Assignment row = assignment_co_mapping row"
| "co_col Attendance row = attendance_co_mapping row"

definition components :: "component list" where
  "components = [Mid, Final, Ct, Assignment, Attendance]"

text \<open>
  The body of the loop over the components: the state is the pair
  \<open>(total_co_score, total_weighted_score)\<close>. The tag column is read only when the mark
  is not missing (\<open>and\<close> evaluates its second operand only then), and reading a column
  that is not there raises KeyError.
\<close>

definition co_step :: "student_row \<Rightarrow> string \<Rightarrow> component \<Rightarrow> real \<times> real \<Rightarrow> py_error + real \<times> real" where
  "co_step row co_name component acc =
    (case marks_col component row of
       None \<Rightarrow> Inr acc
     | Some marks \<Rightarrow>
        (case co_col component row of
           NoColumn \<Rightarrow> Inl KeyError
         | Cell None \<Rightarrow> Inr acc
         | Cell (Some s) \<Rightarrow>
            (let cos = parse_co_mapping (Some s) in
             if co_name \<in> set cos then
               (let co_share = (if length cos > 0 then marks / real (length cos) else marks);
                    weighted_score = (co_share / max_marks component) * weights component * 100
                in Inr (fst acc + weighted_score, snd acc + weights component * 100))
             else Inr acc)))"

fun co_fold :: "student_row \<Rightarrow> string \<Rightarrow> component list \<Rightarrow> real \<times> real \<Rightarrow> py_error + real \<times> real" where
  "co_fold row co_name [] acc = Inr acc"
| "co_fold row co_name (component # rest) acc =
    (case co_step row co_name component acc of
       Inl e \<Rightarrow> Inl e
     | Inr acc' \<Rightarrow> co_fold row co_name rest acc')"

definition calculate_co_achievement :: "student_row \<Rightarrow> string \<Rightarrow> py_error + real" where
  "calculate_co_achievement row co_name =
    (case co_fold row co_name components (0, 0) of
       Inl e \<Rightarrow> Inl e
     | Inr acc \<Rightarrow> Inr (if snd acc > 0 then fst acc / snd acc * 100 else 0))"

text \<open>
  The achievement in the specification's words: over the components whose mark and tag
  list are present and whose tag list contains the CO, the weighted shares over the
  weights, times 100; 0 when there is no such component. The tag string of a component
  is missing when the cell is blank and when the column is not there.
\<close>

definition tag_string :: "component \<Rightarrow> student_row \<Rightarrow> string option" where
  "tag_string c row = (case co_col c row of NoColumn \<Rightarrow> None | Cell v \<Rightarrow> v)"

definition maps_to :: "student_row \<Rightarrow> string \<Rightarrow> component \<Rightarrow> bool" where
  "maps_to row co c =
    (marks_col c row \<noteq> None \<and> tag_string c row \<noteq> None
     \<and> co \<in> set (parse_co_mapping (tag_string c row)))"

definition share_term :: "student_row \<Rightarrow> component \<Rightarrow> real" where
  "share_term row c =
    ((the (marks_col c row) / real (length (parse_co_mapping (tag_string c row)))) / max_marks c) * weights c"

definition co_achievement_spec :: "student_row \<Rightarrow> string \<Rightarrow> real" where
  "co_achievement_spec row co =
    (let mapped = filter (maps_to row co) components;
         numerator = sum_list (map (share_term row) mapped);
         denominator = sum_list (map weights mapped)
     in if mapped = [] then 0 else numerator / denominator * 100)"

text \<open>
  What one component adds to the numerator \<open>total_co_score\<close> when the achievement of
  \<open>co\<close> is computed, and the sum of these additions over the distinct COs of the
  component's tag list.
\<close>

definition numerator_contribution :: "student_row \<Rightarrow> component \<Rightarrow> string \<Rightarrow> py_error + real" where
  "numerator_contribution row c co =
    (case co_step row co c (0, 0) of Inl e \<Rightarrow> Inl e | Inr acc \<Rightarrow> Inr (fst acc))"

definition contribution_over_tags :: "student_row \<Rightarrow> component \<Rightarrow> py_error + real" where
  "contribution_over_tags row c =
    (case collect (map (numerator_contribution row c) (remdups (parse_co_mapping (tag_string c row)))) of
       Inl e \<Rightarrow> Inl e
     | Inr vs \<Rightarrow> Inr (sum_list vs))"

definition single_co_contribution :: "student_row \<Rightarrow> component \<Rightarrow> real" where
  "single_co_contribution row c = (the (marks_col c row) / max_marks c) * weights c * 100"

text \<open>
  Tag strings that differ only in whitespace around their tags: both are the same list
  of tags, each tag wrapped in a pair of whitespace strings of its own in either string.
  A tag is a non-empty string without a comma.
\<close>

fun join_comma :: "string list \<Rightarrow> string" where
  "join_comma [] = []"
| "join_comma [t] = t"
| "join_comma (t # u # us) = t @ CHR '','' # join_comma (u # us)"

definition pad :: "string \<times> string \<Rightarrow> string \<Rightarrow> string" where
  "pad lr t = fst lr @ t @ snd lr"

definition is_tag :: "string \<Rightarrow> bool" where
  "is_tag t = (t \<noteq> [] \<and> CHR '','' \<notin> set t)"

definition is_padding :: "string \<times> string \<Rightarrow> bool" where
  "is_padding lr = (list_all py_isspace (fst lr) \<and> list_all py_isspace (snd lr))"

inductive respaced :: "string option column \<Rightarrow> string option column \<Rightarrow> bool" where
  absent: "respaced NoColumn NoColumn"
| missing: "respaced (Cell None) (Cell None)"
| padded: "list_all is_tag ts \<Longrightarrow> list_all is_padding ps \<Longrightarrow> list_all is_padding qs \<Longrightarrow>
    length ps = length ts \<Longrightarrow> length qs = length ts \<Longrightarrow>
    respaced (Cell (Some (join_comma (map2 pad ps ts)))) (Cell (Some (join_comma (map2 pad qs ts))))"

subsection \<open>PO attainment\<close>

text \<open>
  \<open>df[name] = ...\<close>: the column is created when the table does not have it yet, and
  every row gets its value.
\<close>

definition set_column :: "string \<Rightarrow> (student_row \<Rightarrow> real) \<Rightarrow> dataframe \<Rightarrow> dataframe" where
  "set_column name f df =
    df\<lparr>columns := (if name \<in> set (columns df) then columns df else columns df @ [name]),
       rows := map (\<lambda>row. row\<lparr>num := (num row)(name := f row)\<rparr>) (rows df)\<rparr>"

text \<open>
  The CO_PO_Mapping sheet: its PO columns, and its rows in order, each with its
  \<open>Course_Outcome\<close> name and its weights by column name. A blank weight cell is NaN in
  pandas; the code only asks whether a weight is greater than 0, which NaN is not, so a
  blank cell is any weight that is not positive.
\<close>

record co_po_matrix =
  po_cols :: "string list"
  body :: "(string \<times> (string \<Rightarrow> real)) list"

text \<open>
  \<open>co_po_mapping.loc[co_po_mapping['Course_Outcome'] == co, po].iloc[0]\<close>: a missing
  column raises KeyError, an empty selection raises IndexError at \<open>iloc[0]\<close>.
\<close>

definition lookup_weight :: "co_po_matrix \<Rightarrow> string \<Rightarrow> string \<Rightarrow> py_error + real" where
  "lookup_weight m co po =
    (if po \<notin> set (po_cols m) then Inl KeyError
     else (case filter (\<lambda>r. fst r = co) (body m) of
             [] \<Rightarrow> Inl IndexError
           | r # _ \<Rightarrow> Inr (snd r po)))"

text \<open>\<open>row.get(name, default)\<close> on a row of the table.\<close>

definition row_get :: "dataframe \<Rightarrow> student_row \<Rightarrow> string \<Rightarrow> real \<Rightarrow> real" where
  "row_get df row name dflt = (if name \<in> set (columns df) then num row name else dflt)"

definition po_list :: "string list" where
  "po_list = [''PO1'', ''PO2'', ''PO3'', ''PO4'', ''PO5'', ''PO6'', ''PO7'', ''PO8'', ''PO9'',
              ''PO10'', ''PO11'', ''PO12'']"

text \<open>The loop over \<open>co_list\<close>; the state is \<open>(po_score, total_co_weight)\<close>.\<close>

fun co_loop :: "co_po_matrix \<Rightarrow> dataframe \<Rightarrow> student_row \<Rightarrow> string \<Rightarrow> string list
    \<Rightarrow> real \<times> real \<Rightarrow> py_error + real \<times> real" where
  "co_loop m df row po [] acc = Inr acc"
| "co_loop m df row po (co # rest) acc =
    (case lookup_weight m co po of
       Inl e \<Rightarrow> Inl e
     | Inr co_weight \<Rightarrow>
        if co_weight > 0 then
          (let co_achievement = row_get df row (co @ ''_achievement'') 0
           in co_loop m df row po rest (fst acc + co_achievement * co_weight, snd acc + co_weight))
        else co_loop m df row po rest acc)"

text \<open>The loop over the rows of the table, for one PO.\<close>

fun row_loop :: "co_po_matrix \<Rightarrow> dataframe \<Rightarrow> string \<Rightarrow> string list \<Rightarrow> student_row list
    \<Rightarrow> py_error + student_row list" where
  "row_loop m df po co_list [] = Inr []"
| "row_loop m df po co_list (row # rest) =
    (case co_loop m df row po co_list (0, 0) of
       Inl e \<Rightarrow> Inl e
     | Inr acc \<Rightarrow>
        (let row' = (if snd acc > 0
                     then row\<lparr>num := (num row)(po @ ''_attainment'' := fst acc / snd acc)\<rparr>
                     else row)
         in (case row_loop m df po co_list rest of
               Inl e \<Rightarrow> Inl e
             | Inr filled \<Rightarrow> Inr (row' # filled))))"

text \<open>The loop over the POs: the column is set to 0.0, then filled row by row.\<close>

fun po_loop :: "co_po_matrix \<Rightarrow> string list \<Rightarrow> string list \<Rightarrow> dataframe \<Rightarrow> py_error + dataframe" where
  "po_loop m co_list [] df = Inr df"
| "po_loop m co_list (po # pos) df =
    (let df0 = set_column (po @ ''_attainment'') (\<lambda>_. 0) df
     in (case row_loop m df0 po co_list (rows df0) of
           Inl e \<Rightarrow> Inl e
         | Inr filled \<Rightarrow> po_loop m co_list pos (df0\<lparr>rows := filled\<rparr>)))"

definition calculate_po_attainment :: "dataframe \<Rightarrow> co_po_matrix \<Rightarrow> string list \<Rightarrow> py_error + dataframe" where
  "calculate_po_attainment df co_po_mapping co_list = po_loop co_po_mapping co_list po_list df"

text \<open>
  The attainment in the specification's words: \<open>weight\<close> is the matrix entry of a CO
  and a PO, \<open>co_achievement\<close> the achievement recorded in the row (0 without the column).
\<close>

definition weight :: "co_po_matrix \<Rightarrow> string \<Rightarrow> string \<Rightarrow> real" where
  "weight m co po = (case filter (\<lambda>r. fst r = co) (body m) of [] \<Rightarrow> 0 | r # _ \<Rightarrow> snd r po)"

definition co_achievement :: "dataframe \<Rightarrow> student_row \<Rightarrow> string \<Rightarrow> real" where
  "co_achievement df row co = row_get df row (co @ ''_achievement'') 0"

definition po_attainment_spec :: "co_po_matrix \<Rightarrow> dataframe \<Rightarrow> student_row \<Rightarrow> string list \<Rightarrow> string \<Rightarrow> real" where
  "po_attainment_spec m df row co_list po =
    (let mapped = filter (\<lambda>co. weight m co po > 0) co_list;
         numerator = sum_list (map (\<lambda>co. co_achievement df row co * weight m co po) mapped);
         denominator = sum_list (map (\<lambda>co. weight m co po) mapped)
     in if denominator = 0 then 0 else numerator / denominator)"

definition has_row :: "co_po_matrix \<Rightarrow> string \<Rightarrow> bool" where
  "has_row m co = (filter (\<lambda>r. fst r = co) (body m) \<noteq> [])"

definition complete_for :: "co_po_matrix \<Rightarrow> string list \<Rightarrow> bool" where
  "complete_for m co_list = (list_all (\<lambda>po. po \<in> set (po_cols m)) po_list \<and> list_all (has_row m) co_list)"

definition attainment :: "student_row \<Rightarrow> string \<Rightarrow> real" where
  "attainment row po = num row (po @ ''_attainment'')"

section \<open>MLAnalyzer\<close>

text \<open>
  The scaler and the clustering are library objects held by the analyzer; the model takes
  what they compute as parameters (\<open>fit_transform\<close>, \<open>fit_predict\<close>, either may
  raise) and records in the analyzer's state the data each of them was last fitted on.
\<close>

record ml_analyzer =
  scaler_fit_on :: "real list list option"
  kmeans_fit_on :: "real list list option"

record cluster_summary =
  cluster_size :: nat
  avg_cgpa :: pyfloat
  characteristics :: "(string \<times> pyfloat) list"

text \<open>\<open>Series.mean()\<close> skips missing values and is NaN when nothing is left.\<close>

definition mean_f :: "pyfloat list \<Rightarrow> pyfloat" where
  "mean_f xs =
    (let present = concat (map (\<lambda>x. case x of None \<Rightarrow> [] | Some v \<Rightarrow> [v]) xs)
     in if present = [] then None else Some (sum_list present / real (length present)))"

definition analyze_cluster_characteristics :: "student_row list \<Rightarrow> string list \<Rightarrow> (string \<times> pyfloat) list" where
  "analyze_cluster_characteristics cluster_data feature_names =
    map (\<lambda>feature. (feature, mean_f (map (\<lambda>row. Some (num row feature)) cluster_data))) feature_names"

definition add_column :: "string \<Rightarrow> string list \<Rightarrow> string list" where
  "add_column name cols = (if name \<in> set cols then cols else cols @ [name])"

definition student_clustering ::
  "(real list list \<Rightarrow> py_error + real list list) \<Rightarrow> (real list list \<Rightarrow> py_error + int list)
   \<Rightarrow> ml_analyzer \<Rightarrow> dataframe \<Rightarrow> string list \<Rightarrow> string list
   \<Rightarrow> py_error + (dataframe \<times> (int \<times> cluster_summary) list \<times> ml_analyzer)" where
  "student_clustering fit_transform fit_predict self df co_list pos =
    (let feature_names =
           map (\<lambda>co. co @ ''_achievement'') (filter (\<lambda>co. co @ ''_achievement'' \<in> set (columns df)) co_list)
           @ map (\<lambda>po. po @ ''_attainment'') (filter (\<lambda>po. po @ ''_attainment'' \<in> set (columns df)) pos)
     in if length feature_names = 0 then Inr (df, [], self)
        else
          (let feature_matrix = map (\<lambda>row. map (num row) feature_names) (rows df)
           in (case fit_transform feature_matrix of
                 Inl e \<Rightarrow> Inl e
               | Inr feature_matrix_scaled \<Rightarrow>
                  (case fit_predict feature_matrix_scaled of
                     Inl e \<Rightarrow> Inl e
                   | Inr clusters \<Rightarrow>
                      if length clusters \<noteq> length (rows df) then Inl ValueError
                      else
                        (let df' = df\<lparr>columns := add_column ''performance_cluster'' (columns df),
                                      rows := map2 (\<lambda>row c. row\<lparr>performance_cluster := Some c\<rparr>) (rows df) clusters\<rparr>;
                             cluster_analysis =
                               map (\<lambda>cluster_id.
                                     (let cluster_data = filter (\<lambda>row. performance_cluster row = Some cluster_id) (rows df')
                                      in (cluster_id,
                                          \<lparr>cluster_size = length cluster_data,
                                           avg_cgpa = mean_f (map grade_points cluster_data),
                                           characteristics = analyze_cluster_characteristics cluster_data feature_names\<rparr>)))
                                   [0, 1, 2]
                         in Inr (df', cluster_analysis,
                                 self\<lparr>scaler_fit_on := Some feature_matrix,
                                      kmeans_fit_on := Some feature_matrix_scaled\<rparr>))))))"

section \<open>The performance group shown for a cluster\<close>

text \<open>
  The three entries of \<open>cluster_names\<close>, in the order of the list in the source
  (high performer, average performer, needs improvement).
\<close>

datatype perf_group = HighPerformer | AveragePerformer | NeedsImprovement

definition cluster_names :: "perf_group list" where
  "cluster_names = [HighPerformer, AveragePerformer, NeedsImprovement]"

text \<open>Python's list indexing: a negative index counts from the end.\<close>

definition py_index :: "'a list \<Rightarrow> int \<Rightarrow> py_error + 'a" where
  "py_index xs i =
    (if 0 \<le> i \<and> i < int (length xs) then Inr (xs ! nat i)
     else if i < 0 \<and> - int (length xs) \<le> i then Inr (xs ! nat (int (length xs) + i))
     else Inl IndexError)"

text \<open>
  The metric of a student's page: nothing is shown (\<open>None\<close>) without the column
  \<open>performance_cluster\<close>.
\<close>

definition performance_group_metric :: "dataframe \<Rightarrow> student_row \<Rightarrow> (py_error + perf_group) option" where
  "performance_group_metric df student =
    (if ''performance_cluster'' \<in> set (columns df) then
       (let cluster_id = (case performance_cluster student of Some c \<Rightarrow> c | None \<Rightarrow> 1)
        in Some (py_index cluster_names cluster_id))
     else None)"

text \<open>
  The labels of the bar chart of the teacher portal: one per cluster id that occurs in
  the table, in increasing order of the ids.
\<close>

definition cluster_labels :: "dataframe \<Rightarrow> (py_error + perf_group list) option" where
  "cluster_labels df =
    (if ''performance_cluster'' \<in> set (columns df) then
       (let ids = sort (remdups (concat (map (\<lambda>row. case performance_cluster row of
                                                        None \<Rightarrow> [] | Some c \<Rightarrow> [c]) (rows df))))
        in Some (collect (map (py_index cluster_names) ids)))
     else None)"

text \<open>
  The heading of a cluster in the ML insights tab of the same page: the group is read off
  the cluster's mean grade point as the summary of \<open>student_clustering\<close> gives it.
\<close>

definition expander_group :: "cluster_summary \<Rightarrow> perf_group" where
  "expander_group analysis =
    (if ge_f (avg_cgpa analysis) 3.5 then HighPerformer
     else if ge_f (avg_cgpa analysis) 2.5 then AveragePerformer
     else NeedsImprovement)"

definition expander_groups :: "(int \<times> cluster_summary) list \<Rightarrow> (int \<times> perf_group) list" where
  "expander_groups cluster_analysis =
    map (\<lambda>(cluster_id, analysis). (cluster_id, expander_group analysis)) cluster_analysis"

text \<open>
  The labelling the specification asks for: the three clusters are ranked by their mean
  grade point, and a cluster is high, average or low by the number of clusters whose mean
  is greater than its own.
\<close>

definition gt_f :: "pyfloat \<Rightarrow> pyfloat \<Rightarrow> bool" where
  "gt_f p q = (case p of None \<Rightarrow> False | Some x \<Rightarrow> (case q of None \<Rightarrow> False | Some y \<Rightarrow> x > y))"

definition cluster_mean :: "dataframe \<Rightarrow> int \<Rightarrow> pyfloat" where
  "cluster_mean df c = mean_f (map grade_points (filter (\<lambda>row. performance_cluster row = Some c) (rows df)))"

definition ranked_label :: "dataframe \<Rightarrow> int \<Rightarrow> perf_group" where
  "ranked_label df c =
    (let better = length (filter (\<lambda>c'. gt_f (cluster_mean df c') (cluster_mean df c)) [0, 1, 2])
     in if better = 0 then HighPerformer
        else if better = 1 then AveragePerformer
        else NeedsImprovement)"

section \<open>Auxiliary definitions for the proofs\<close>

text \<open>The two sums the loop over \<open>co_list\<close> accumulates, in closed form.\<close>

definition po_sums :: "co_po_matrix \<Rightarrow> dataframe \<Rightarrow> student_row \<Rightarrow> string list \<Rightarrow> string \<Rightarrow> real \<times> real" where
  "po_sums m df row co_list po =
    (sum_list (map (\<lambda>co. co_achievement df row co * weight m co po) (filter (\<lambda>co. weight m co po > 0) co_list)),
     sum_list (map (\<lambda>co. weight m co po) (filter (\<lambda>co. weight m co po > 0) co_list)))"

text \<open>What the loop over the rows does to one row, and what one round of the loop over
  the POs does to the table.\<close>

definition fill :: "co_po_matrix \<Rightarrow> dataframe \<Rightarrow> string \<Rightarrow> string list \<Rightarrow> student_row \<Rightarrow> student_row" where
  "fill m df po co_list row =
    (if snd (po_sums m df row co_list po) > 0
     then row\<lparr>num := (num row)(po @ ''_attainment'' :=
                 fst (po_sums m df row co_list po) / snd (po_sums m df row co_list po))\<rparr>
     else row)"

definition att_step :: "co_po_matrix \<Rightarrow> string list \<Rightarrow> string \<Rightarrow> dataframe \<Rightarrow> dataframe" where
  "att_step m co_list po df =
    set_column (po @ ''_attainment'') (\<lambda>row. po_attainment_spec m df row co_list po) df"

text \<open>No component with a mark lacks its tag column: the loop over the components does
  not raise.\<close>

definition tag_columns_present :: "student_row \<Rightarrow> component list \<Rightarrow> bool" where
  "tag_columns_present row cs =
    list_all (\<lambda>c. marks_col c row = None \<or> co_col c row \<noteq> NoColumn) cs"

section \<open>Example data\<close>

text \<open>
  The student of the documented scenario (25/30, 35/40, 12/15, 8/10, 4/5), with tags on
  three components, an empty tag string on the assignment and a blank tag cell for
  attendance.
\<close>

definition scenario_row :: student_row where
  "scenario_row =
    \<lparr>mid_marks = Some 25, final_marks = Some 35, ct_marks = Some 12,
     assignment_marks = Some 8, attendance_marks = Some 4,
     mid_co_mapping = Cell (Some ''CO1,CO2''), final_co_mapping = Cell (Some ''CO2''),
     ct_co_mapping = Cell (Some ''CO1, CO2''), assignment_co_mapping = Cell (Some []),
     attendance_co_mapping = Cell None,
     grade_points = Some 0, performance_cluster = None, num = (\<lambda>_. 0)\<rparr>"

text \<open>The same student with other whitespace around the tags, and with a tag repeated.\<close>

definition respaced_row :: student_row where
  "respaced_row =
    scenario_row\<lparr>mid_co_mapping := Cell (Some ''CO1, CO2''),
                 final_co_mapping := Cell (Some '' CO2 ''),
                 ct_co_mapping := Cell (Some ''CO1,CO2'')\<rparr>"

definition duplicate_tag_row :: student_row where
  "duplicate_tag_row = scenario_row\<lparr>final_co_mapping := Cell (Some ''CO1,CO1'')\<rparr>"

text \<open>
  The first student of the repository's own template (\<open>create_excel_template.py\<close>):
  marks 25, 35, 12, 8, 4, tags for four components, and no \<open>attendance_co_mapping\<close>
  column.
\<close>

definition template_row :: student_row where
  "template_row =
    \<lparr>mid_marks = Some 25, final_marks = Some 35, ct_marks = Some 12,
     assignment_marks = Some 8, attendance_marks = Some 4,
     mid_co_mapping = Cell (Some ''CO1,CO2''), final_co_mapping = Cell (Some ''CO1,CO2,CO3''),
     ct_co_mapping = Cell (Some ''CO1''), assignment_co_mapping = Cell (Some ''CO2,CO3''),
     attendance_co_mapping = NoColumn,
     grade_points = Some 0, performance_cluster = None, num = (\<lambda>_. 0)\<rparr>"

text \<open>A weight matrix with rows for CO1 and CO2 only, and tables with and without rows.\<close>

definition example_matrix :: co_po_matrix where
  "example_matrix =
    \<lparr>po_cols = po_list,
     body = [(''CO1'', (\<lambda>po. if po = ''PO1'' then 1 else 0)),
             (''CO2'', (\<lambda>po. if po = ''PO1'' then 3 else if po = ''PO2'' then 1 else 0))]\<rparr>"

definition empty_table :: dataframe where
  "empty_table = \<lparr>columns = [], rows = []\<rparr>"

definition marks_table :: dataframe where
  "marks_table = \<lparr>columns = [], rows = [scenario_row]\<rparr>"

definition achievement_table :: dataframe where
  "achievement_table =
    \<lparr>columns = [''CO1_achievement'', ''CO2_achievement''],
     rows = [scenario_row\<lparr>num := (\<lambda>name. if name = ''CO1_achievement'' then 40
                                      else if name = ''CO2_achievement'' then 80 else 0)\<rparr>]\<rparr>"

text \<open>
  Three graded students with one achievement column, the weakest first, and a clustering
  that numbers the clusters in the order of the rows (the numbering of its clusters is
  the library's choice); the scaler stand-in leaves the features as they are.
\<close>

definition graded_table :: dataframe where
  "graded_table =
    \<lparr>columns = [''CO1_achievement''],
     rows = [scenario_row\<lparr>grade_points := Some 1, num := (\<lambda>_. 20)\<rparr>,
             scenario_row\<lparr>grade_points := Some 3, num := (\<lambda>_. 60)\<rparr>,
             scenario_row\<lparr>grade_points := Some 4, num := (\<lambda>_. 95)\<rparr>]\<rparr>"

definition unscaled :: "real list list \<Rightarrow> py_error + real list list" where
  "unscaled X = Inr X"

definition clusters_in_row_order :: "real list list \<Rightarrow> py_error + int list" where
  "clusters_in_row_order X = Inr (map int [0..<length X])"

text \<open>Library stand-ins that raise whenever they are called.\<close>

definition raising_transform :: "real list list \<Rightarrow> py_error + real list list" where
  "raising_transform X = Inl ValueError"

definition raising_predict :: "real list list \<Rightarrow> py_error + int list" where
  "raising_predict X = Inl ValueError"

definition fresh_analyzer :: ml_analyzer where
  "fresh_analyzer = \<lparr>scaler_fit_on = None, kmeans_fit_on = None\<rparr>"

section \<open>Grades and total marks\<close>

text \<open>
  C4: for every percentage, \<open>marks_to_grade\<close> returns the grade and grade point of the
  breakpoint table read with inclusive lower bounds and the highest matching bound
  winning (F with 0.0 below 40); 90.0 gives A+ with 4.0 and 89.999 gives A with 3.7.
\<close>

theorem marks_to_grade_table:
  "marks_to_grade (Some p) = highest_match p
   \<and> marks_to_grade (Some 90.0) = (''A+'', 4.0)
   \<and> marks_to_grade (Some 89.999) = (''A'', 3.7)"
  unfolding marks_to_grade_def highest_match_def breakpoints_def ge_f_def
  by simp

text \<open>
  C5: the total of a row with the five marks present is
  \<open>0.30*mid + 0.40*final + 0.15*ct + 0.10*assignment + 0.05*attendance\<close> of the raw
  marks, with no division by the component maxima; the documented scenario
  (25, 35, 12, 8, 4) has total 24.3 and grade F.
\<close>

theorem total_marks_raw_weighted_sum:
  "calculate_total_marks
     (row\<lparr>mid_marks := Some mid, final_marks := Some final, ct_marks := Some ct,
          assignment_marks := Some assignment, attendance_marks := Some attendance\<rparr>)
   = Some (0.30 * mid + 0.40 * final + 0.15 * ct + 0.10 * assignment + 0.05 * attendance)
   \<and> calculate_cgpa_for_student
       (row\<lparr>mid_marks := Some 25, final_marks := Some 35, ct_marks := Some 12,
            assignment_marks := Some 8, attendance_marks := Some 4\<rparr>)
     = (Some 24.3, ''F'', 0.0)"
  by (simp add: calculate_total_marks_def calculate_cgpa_for_student_def marks_to_grade_def
      mul_f_def add_f_def ge_f_def algebra_simps)

section \<open>CO achievement\<close>

lemma weights_pos: "0 < weights c"
  by (cases c) simp_all

lemma max_marks_pos: "0 < max_marks c"
  by (cases c) simp_all

lemma co_step_maps:
  "marks_col c row = None \<or> co_col c row \<noteq> NoColumn \<Longrightarrow>
   co_step row co c acc =
    Inr (if maps_to row co c then (fst acc + share_term row c * 100, snd acc + weights c * 100) else acc)"
  by (auto simp: co_step_def maps_to_def share_term_def tag_string_def Let_def parse_co_mapping_def
      split: option.splits column.splits)

lemma co_step_raises:
  "marks_col c row \<noteq> None \<Longrightarrow> co_col c row = NoColumn \<Longrightarrow> co_step row co c acc = Inl KeyError"
  by (auto simp: co_step_def split: option.splits)

lemma co_fold_closed:
  "tag_columns_present row cs \<Longrightarrow>
   co_fold row co cs acc =
    Inr (fst acc + 100 * sum_list (map (share_term row) (filter (maps_to row co) cs)),
         snd acc + 100 * sum_list (map weights (filter (maps_to row co) cs)))"
proof (induction cs arbitrary: acc)
  case Nil
  then show ?case by simp
next
  case (Cons c cs)
  then have c: "marks_col c row = None \<or> co_col c row \<noteq> NoColumn"
    and cs: "tag_columns_present row cs"
    by (simp_all add: tag_columns_present_def)
  show ?case
    by (simp add: co_step_maps[OF c] Cons.IH[OF cs] algebra_simps)
qed

lemma sum_weights_nonneg: "0 \<le> sum_list (map weights xs)"
  by (induction xs) (auto simp: less_imp_le[OF weights_pos])

lemma sum_weights_pos: "xs \<noteq> [] \<Longrightarrow> 0 < sum_list (map weights xs)"
  using sum_weights_nonneg weights_pos by (cases xs) (auto simp: add_pos_nonneg)

text \<open>
  Where no component with a mark lacks its tag column, the code returns the weighted
  average of the specification, and 0 when no component maps to the CO.
\<close>

lemma achievement_closed_form:
  assumes "tag_columns_present row components"
  shows "calculate_co_achievement row co = Inr (co_achievement_spec row co)"
proof (cases "filter (maps_to row co) components = []")
  case True
  then show ?thesis
    by (simp add: calculate_co_achievement_def co_fold_closed[OF assms] co_achievement_spec_def)
next
  case False
  from sum_weights_pos[OF this] show ?thesis using False
    by (simp add: calculate_co_achievement_def co_fold_closed[OF assms] co_achievement_spec_def Let_def)
qed

text \<open>
  C1: on the first student of the repository's template, whose sheet has no
  \<open>attendance_co_mapping\<close> column, \<open>calculate_co_achievement\<close> raises KeyError for
  CO1, where the specification skips the attendance component, whose tag string is
  missing, and gives the weighted average 2170/51 of mid term, final and class test.
\<close>

theorem co_achievement_template_row_raises:
  "marks_col Attendance template_row = Some 4
   \<and> co_col Attendance template_row = NoColumn
   \<and> calculate_co_achievement template_row ''CO1'' = Inl KeyError
   \<and> co_achievement_spec template_row ''CO1'' = 2170 / 51"
proof -
  have p: "parse_co_mapping (Some ''CO1,CO2'') = [''CO1'', ''CO2'']"
          "parse_co_mapping (Some ''CO1,CO2,CO3'') = [''CO1'', ''CO2'', ''CO3'']"
          "parse_co_mapping (Some ''CO1'') = [''CO1'']"
          "parse_co_mapping (Some ''CO2,CO3'') = [''CO2'', ''CO3'']"
          "parse_co_mapping None = []"
    by (simp_all add: parse_co_mapping_def strip_def py_isspace_def)
  have s: "co_step template_row ''CO1'' Mid (0, 0) = Inr (25 / 2, 30)"
          "co_step template_row ''CO1'' Final (25 / 2, 30) = Inr (145 / 6, 70)"
          "co_step template_row ''CO1'' Ct (145 / 6, 70) = Inr (217 / 6, 85)"
          "co_step template_row ''CO1'' Assignment (217 / 6, 85) = Inr (217 / 6, 85)"
          "co_step template_row ''CO1'' Attendance (217 / 6, 85) = Inl KeyError"
    by (simp_all add: co_step_def template_row_def p)
  have r: "calculate_co_achievement template_row ''CO1'' = Inl KeyError"
    by (simp add: calculate_co_achievement_def components_def s)
  have v: "co_achievement_spec template_row ''CO1'' = 2170 / 51"
    by (simp add: co_achievement_spec_def maps_to_def share_term_def tag_string_def components_def
        template_row_def p)
  show ?thesis using r v by (simp add: template_row_def)
qed

subsection \<open>Share splitting\<close>

lemma contribution_of_tag:
  assumes "marks_col c row = Some m" "co \<in> set (parse_co_mapping (tag_string c row))"
  shows "numerator_contribution row c co =
    Inr (((m / real (length (parse_co_mapping (tag_string c row)))) / max_marks c) * weights c * 100)"
  using assms
  by (auto simp: numerator_contribution_def co_step_def tag_string_def Let_def parse_co_mapping_def
      split: column.splits option.splits)

lemma collect_const:
  "(\<And>x. x \<in> set xs \<Longrightarrow> f x = Inr (k::real)) \<Longrightarrow> collect (map f xs) = Inr (replicate (length xs) k)"
  by (induction xs) simp_all

lemma sum_list_replicate_real: "sum_list (replicate n (k::real)) = real n * k"
  by (induction n) (simp_all add: algebra_simps)

text \<open>
  C7 (as amended): for a component with a present mark whose tag string parses to at
  least one tag, all tags different, the numerator contributions that
  \<open>calculate_co_achievement\<close> adds for the COs of the tag list sum to
  \<open>(mark / max) * weight * 100\<close>, the contribution of the component tagged to one CO.
\<close>

theorem share_splitting_conserves:
  assumes "marks_col c row \<noteq> None"
    and "parse_co_mapping (tag_string c row) \<noteq> []"
    and "distinct (parse_co_mapping (tag_string c row))"
  shows "contribution_over_tags row c = Inr (single_co_contribution row c)"
proof -
  obtain m where m: "marks_col c row = Some m" using assms(1) by auto
  let ?tags = "parse_co_mapping (tag_string c row)"
  let ?k = "((m / real (length ?tags)) / max_marks c) * weights c * 100"
  have n: "real (length ?tags) \<noteq> 0" using assms(2) by simp
  have "collect (map (numerator_contribution row c) ?tags) = Inr (replicate (length ?tags) ?k)"
    by (rule collect_const) (rule contribution_of_tag[OF m])
  then have "contribution_over_tags row c = Inr (real (length ?tags) * ?k)"
    using assms(3) by (simp add: contribution_over_tags_def distinct_remdups_id sum_list_replicate_real)
  also have "real (length ?tags) * ?k = (m / max_marks c) * weights c * 100"
    using n by simp
  finally show ?thesis by (simp add: single_co_contribution_def m)
qed

theorem share_splitting_conserves_witness:
  "marks_col Ct scenario_row = Some 12
   \<and> parse_co_mapping (tag_string Ct scenario_row) = [''CO1'', ''CO2'']
   \<and> contribution_over_tags scenario_row Ct = Inr (single_co_contribution scenario_row Ct)
   \<and> single_co_contribution scenario_row Ct = 12"
proof -
  have p: "parse_co_mapping (tag_string Ct scenario_row) = [''CO1'', ''CO2'']"
    by (simp add: scenario_row_def tag_string_def parse_co_mapping_def strip_def py_isspace_def)
  have m: "marks_col Ct scenario_row = Some 12"
    by (simp add: scenario_row_def)
  have s: "single_co_contribution scenario_row Ct = 12"
    by (simp add: single_co_contribution_def scenario_row_def)
  from share_splitting_conserves[of Ct scenario_row]
  show ?thesis using p m s by simp
qed

text \<open>
  The claim as stated fails without these conditions: an empty tag string has no CO to
  receive the mark (assignment, mark 8: the sum is 0, not 8), and a repeated tag lowers
  the share of the one CO there is (final exam tagged CO1,CO1 with mark 35: the sum is
  17.5, not 35).
\<close>

theorem share_splitting_counterexample:
  "marks_col Assignment scenario_row = Some 8
   \<and> contribution_over_tags scenario_row Assignment = Inr 0
   \<and> single_co_contribution scenario_row Assignment = 8
   \<and> marks_col Final duplicate_tag_row = Some 35
   \<and> contribution_over_tags duplicate_tag_row Final = Inr (35 / 2)
   \<and> single_co_contribution duplicate_tag_row Final = 35"
proof -
  have p: "parse_co_mapping (Some ''CO1,CO1'') = [''CO1'', ''CO1'']"
          "parse_co_mapping (Some []) = []"
    by (simp_all add: parse_co_mapping_def strip_def py_isspace_def)
  show ?thesis
    by (simp add: contribution_over_tags_def single_co_contribution_def numerator_contribution_def
        co_step_def tag_string_def scenario_row_def duplicate_tag_row_def p)
qed

subsection \<open>Whitespace around the tags\<close>

lemma comma_not_space: "\<not> py_isspace (CHR '','')"
  by (simp add: py_isspace_def)

lemma split_comma_nonempty: "split_comma s \<noteq> []"
  by (induction s) (auto split: list.splits)

lemma split_comma_append:
  "CHR '','' \<notin> set x \<Longrightarrow> split_comma (x @ s) = (x @ hd (split_comma s)) # tl (split_comma s)"
proof (induction x)
  case Nil
  then show ?case using split_comma_nonempty[of s] by simp
next
  case (Cons a x)
  then show ?case by (auto split: list.splits)
qed

lemma split_comma_free: "CHR '','' \<notin> set x \<Longrightarrow> split_comma x = [x]"
  using split_comma_append[of x "[]"] by simp

lemma split_join:
  "ts \<noteq> [] \<Longrightarrow> (\<And>t. t \<in> set ts \<Longrightarrow> CHR '','' \<notin> set t) \<Longrightarrow> split_comma (join_comma ts) = ts"
proof (induction ts rule: join_comma.induct)
  case 1
  then show ?case by simp
next
  case (2 t)
  then show ?case by (simp add: split_comma_free)
next
  case (3 t u us)
  have "split_comma (join_comma (u # us)) = u # us" using 3 by simp
  then show ?case using 3(3)[of t] by (simp add: split_comma_append)
qed

lemma strip_pad:
  assumes "list_all py_isspace l" "list_all py_isspace r"
  shows "strip (l @ t @ r) = strip t"
proof -
  have l: "dropWhile py_isspace (l @ t @ r) = dropWhile py_isspace (t @ r)"
    using assms(1) by (simp add: dropWhile_append2 list_all_iff)
  show ?thesis
  proof (cases "list_all py_isspace t")
    case True
    then have A: "dropWhile py_isspace (t @ r) = []" using assms(2)
      by (simp only: dropWhile_eq_Nil_conv) (auto simp: list_all_iff)
    have B: "dropWhile py_isspace t = []" using True
      by (simp only: dropWhile_eq_Nil_conv) (auto simp: list_all_iff)
    show ?thesis by (simp only: strip_def l A B)
  next
    case False
    then obtain x where x: "x \<in> set t" "\<not> py_isspace x" by (auto simp: list_all_iff)
    then have "dropWhile py_isspace (t @ r) = dropWhile py_isspace t @ r"
      by (simp add: dropWhile_append1)
    then have C: "rev (dropWhile py_isspace (t @ r)) = rev r @ rev (dropWhile py_isspace t)" by simp
    have D: "dropWhile py_isspace (rev r @ rev (dropWhile py_isspace t))
              = dropWhile py_isspace (rev (dropWhile py_isspace t))"
      by (rule dropWhile_append2) (use assms(2) in \<open>simp add: list_all_iff\<close>)
    show ?thesis by (simp only: strip_def l C D)
  qed
qed

lemma join_nonempty: "ts \<noteq> [] \<Longrightarrow> hd ts \<noteq> [] \<Longrightarrow> join_comma ts \<noteq> []"
  by (induction ts rule: join_comma.induct) auto

lemma parse_padded:
  assumes "list_all is_tag ts" "list_all is_padding ps" "length ps = length ts"
  shows "parse_co_mapping (Some (join_comma (map2 pad ps ts))) = parse_co_mapping (Some (join_comma ts))"
proof (cases "ts = []")
  case True
  then show ?thesis by simp
next
  case False
  let ?qs = "map2 pad ps ts"
  have len: "length ?qs = length ts" using assms(3) by simp
  have qs: "?qs \<noteq> []" using False len by auto
  have free: "\<And>t. t \<in> set ts \<Longrightarrow> CHR '','' \<notin> set t"
    using assms(1) by (auto simp: list_all_iff is_tag_def)
  have qfree: "\<And>q. q \<in> set ?qs \<Longrightarrow> CHR '','' \<notin> set q"
  proof -
    fix q assume "q \<in> set ?qs"
    then obtain p t where pt: "(p, t) \<in> set (zip ps ts)" and q: "q = pad p t"
      by auto
    have "p \<in> set ps" "t \<in> set ts" using pt by (auto dest: set_zip_leftD set_zip_rightD)
    then have "is_padding p" "is_tag t" using assms(1,2) by (simp_all add: list_all_iff)
    then show "CHR '','' \<notin> set q"
      using comma_not_space by (auto simp: q list_all_iff is_tag_def is_padding_def pad_def)
  qed
  have strip_eq: "map strip ?qs = map strip ts"
  proof (rule nth_equalityI)
    show "length (map strip ?qs) = length (map strip ts)" using len by simp
  next
    fix i assume "i < length (map strip ?qs)"
    then have i: "i < length ts" "i < length ps" using assms(3) by simp_all
    then have "is_padding (ps ! i)" using assms(2) by (simp add: list_all_length)
    then show "map strip ?qs ! i = map strip ts ! i"
      using i by (simp add: pad_def is_padding_def strip_pad)
  qed
  have h1: "hd ts \<noteq> []" using False assms(1) by (cases ts) (auto simp: is_tag_def)
  have h2: "hd ?qs \<noteq> []" using False assms(3) h1 by (cases ts; cases ps) (auto simp: pad_def)
  show ?thesis
    using join_nonempty[OF False h1] join_nonempty[OF qs h2]
      split_join[OF False free] split_join[OF qs qfree] strip_eq
    by (simp add: parse_co_mapping_def)
qed

lemma co_step_respaced:
  assumes "marks_col c row' = marks_col c row" "respaced (co_col c row) (co_col c row')"
  shows "co_step row' co c acc = co_step row co c acc"
  using assms(2)
proof (cases rule: respaced.cases)
  case absent
  then show ?thesis using assms(1) by (simp add: co_step_def split: option.splits)
next
  case missing
  then show ?thesis using assms(1) by (simp add: co_step_def split: option.splits)
next
  case (padded ts ps qs)
  have "parse_co_mapping (Some (join_comma (map2 pad qs ts)))
        = parse_co_mapping (Some (join_comma (map2 pad ps ts)))"
    using padded(3-7) by (simp only: parse_padded)
  then show ?thesis using assms(1) padded(1,2) by (simp add: co_step_def split: option.splits)
qed

text \<open>
  C10: when two rows carry the same marks and, component by component, tag strings that
  differ only in whitespace wrapped around their comma-separated tags, every CO has the
  same achievement in both; so 'CO1, CO2' gives what 'CO1,CO2' gives.
\<close>

theorem achievement_whitespace_invariant:
  assumes "\<forall>c. marks_col c row' = marks_col c row"
    and "\<forall>c. respaced (co_col c row) (co_col c row')"
  shows "calculate_co_achievement row' co = calculate_co_achievement row co"
proof -
  have "co_step row' co = co_step row co"
    by (intro ext) (rule co_step_respaced, use assms in simp_all)
  then have "co_fold row' co cs acc = co_fold row co cs acc" for cs acc
    by (induction cs arbitrary: acc) (simp_all split: sum.splits)
  then show ?thesis by (simp add: calculate_co_achievement_def)
qed

theorem achievement_whitespace_invariant_witness:
  "mid_co_mapping scenario_row = Cell (Some ''CO1,CO2'')
   \<and> mid_co_mapping respaced_row = Cell (Some ''CO1, CO2'')
   \<and> (\<forall>c. marks_col c respaced_row = marks_col c scenario_row)
   \<and> (\<forall>c. respaced (co_col c scenario_row) (co_col c respaced_row))
   \<and> (\<forall>co. calculate_co_achievement respaced_row co = calculate_co_achievement scenario_row co)"
proof -
  have m: "\<forall>c. marks_col c respaced_row = marks_col c scenario_row"
  proof
    fix c show "marks_col c respaced_row = marks_col c scenario_row"
      by (cases c) (simp_all add: respaced_row_def)
  qed
  have a: "respaced (Cell (Some ''CO1,CO2'')) (Cell (Some ''CO1, CO2''))"
    using respaced.padded[of "[''CO1'', ''CO2'']" "[([], []), ([], [])]" "[([], []), ('' '', [])]"]
    by (simp add: is_tag_def is_padding_def pad_def py_isspace_def)
  have b: "respaced (Cell (Some ''CO2'')) (Cell (Some '' CO2 ''))"
    using respaced.padded[of "[''CO2'']" "[([], [])]" "[('' '', '' '')]"]
    by (simp add: is_tag_def is_padding_def pad_def py_isspace_def)
  have c: "respaced (Cell (Some ''CO1, CO2'')) (Cell (Some ''CO1,CO2''))"
    using respaced.padded[of "[''CO1'', ''CO2'']" "[([], []), ('' '', [])]" "[([], []), ([], [])]"]
    by (simp add: is_tag_def is_padding_def pad_def py_isspace_def)
  have d: "respaced (Cell (Some [])) (Cell (Some []))"
    using respaced.padded[of "[]" "[]" "[]"] by simp
  have r: "\<forall>c. respaced (co_col c scenario_row) (co_col c respaced_row)"
  proof
    fix c show "respaced (co_col c scenario_row) (co_col c respaced_row)"
      using a b c d respaced.missing
      by (cases c) (simp_all add: respaced_row_def scenario_row_def)
  qed
  have "\<forall>co. calculate_co_achievement respaced_row co = calculate_co_achievement scenario_row co"
    using achievement_whitespace_invariant[OF m r] by simp
  then show ?thesis using m r by (simp add: respaced_row_def scenario_row_def)
qed

section \<open>PO attainment\<close>

lemma achievement_not_attainment: "co @ ''_achievement'' \<noteq> po @ ''_attainment''"
proof
  assume "co @ ''_achievement'' = po @ ''_attainment''"
  then have "rev (co @ ''_achievement'') = rev (po @ ''_attainment'')" by (rule arg_cong)
  then show False by simp
qed

lemma rows_set_column:
  "rows (set_column name f df) = map (\<lambda>row. row\<lparr>num := (num row)(name := f row)\<rparr>) (rows df)"
  by (simp add: set_column_def)

lemma lookup_weight_ok:
  "po \<in> set (po_cols m) \<Longrightarrow> has_row m co \<Longrightarrow> lookup_weight m co po = Inr (weight m co po)"
  by (auto simp: lookup_weight_def has_row_def weight_def split: list.splits)

lemma co_loop_ok:
  "po \<in> set (po_cols m) \<Longrightarrow> list_all (has_row m) cs \<Longrightarrow>
   co_loop m df row po cs acc =
     Inr (fst acc + fst (po_sums m df row cs po), snd acc + snd (po_sums m df row cs po))"
proof (induction cs arbitrary: acc)
  case Nil
  then show ?case by (simp add: po_sums_def)
next
  case (Cons co cs)
  then show ?case
    by (simp add: lookup_weight_ok po_sums_def co_achievement_def Let_def add.assoc)
qed

lemma sum_pos_weights_nonneg:
  "0 \<le> sum_list (map (\<lambda>co. weight m co po) (filter (\<lambda>co. weight m co po > 0) cs))"
  by (induction cs) auto

lemma spec_sums:
  "po_attainment_spec m df row co_list po =
    (if snd (po_sums m df row co_list po) > 0
     then fst (po_sums m df row co_list po) / snd (po_sums m df row co_list po) else 0)"
  using sum_pos_weights_nonneg[of m po co_list]
  by (auto simp: po_attainment_spec_def po_sums_def Let_def)

lemma row_loop_ok:
  "po \<in> set (po_cols m) \<Longrightarrow> list_all (has_row m) co_list \<Longrightarrow>
   row_loop m df po co_list rs = Inr (map (fill m df po co_list) rs)"
  by (induction rs) (simp_all add: co_loop_ok fill_def Let_def)

lemma co_achievement_set_att:
  "co_achievement (set_column (po @ ''_attainment'') f df)
     (row\<lparr>num := (num row)(po @ ''_attainment'' := v)\<rparr>) co
   = co_achievement df row co"
  by (auto simp: co_achievement_def row_get_def set_column_def achievement_not_attainment)

lemma po_sums_set_att:
  "po_sums m (set_column (po' @ ''_attainment'') f df)
     (row\<lparr>num := (num row)(po' @ ''_attainment'' := v)\<rparr>) co_list po
   = po_sums m df row co_list po"
  by (simp add: po_sums_def co_achievement_set_att)

lemma fill_init:
  "fill m (set_column (po @ ''_attainment'') (\<lambda>_. 0) df) po co_list
     (row\<lparr>num := (num row)(po @ ''_attainment'' := 0)\<rparr>)
   = row\<lparr>num := (num row)(po @ ''_attainment'' := po_attainment_spec m df row co_list po)\<rparr>"
  by (simp add: fill_def po_sums_set_att spec_sums)

lemma po_step_ok:
  assumes "po \<in> set (po_cols m)" "list_all (has_row m) co_list"
  shows "row_loop m (set_column (po @ ''_attainment'') (\<lambda>_. 0) df) po co_list
           (rows (set_column (po @ ''_attainment'') (\<lambda>_. 0) df))
         = Inr (rows (att_step m co_list po df))"
  by (simp add: row_loop_ok[OF assms] att_step_def rows_set_column fill_init o_def)

lemma po_step_df:
  "(set_column (po @ ''_attainment'') (\<lambda>_. 0) df)\<lparr>rows := rows (att_step m co_list po df)\<rparr>
   = att_step m co_list po df"
  by (simp add: att_step_def set_column_def)

lemma po_loop_ok:
  "list_all (\<lambda>po. po \<in> set (po_cols m)) pos \<Longrightarrow> list_all (has_row m) co_list \<Longrightarrow>
   po_loop m co_list pos df = Inr (fold (att_step m co_list) pos df)"
proof (induction pos arbitrary: df)
  case Nil
  then show ?case by simp
next
  case (Cons po pos)
  then show ?case by (simp add: Let_def po_step_ok po_step_df)
qed

lemma calculate_po_attainment_ok:
  "complete_for m co_list \<Longrightarrow>
   calculate_po_attainment df m co_list = Inr (fold (att_step m co_list) po_list df)"
  by (simp add: calculate_po_attainment_def complete_for_def po_loop_ok)

lemma length_att_step: "length (rows (att_step m co_list po df)) = length (rows df)"
  by (simp add: att_step_def rows_set_column)

lemma length_fold_att: "length (rows (fold (att_step m co_list) pos df)) = length (rows df)"
  by (induction pos arbitrary: df) (simp_all add: length_att_step)

lemma att_step_nth:
  "i < length (rows df) \<Longrightarrow>
   rows (att_step m co_list po df) ! i =
     (rows df ! i)\<lparr>num := (num (rows df ! i))(po @ ''_attainment'' :=
                            po_attainment_spec m df (rows df ! i) co_list po)\<rparr>"
  by (simp add: att_step_def rows_set_column)

lemma spec_att_step:
  "i < length (rows df) \<Longrightarrow>
   po_attainment_spec m (att_step m co_list p df) (rows (att_step m co_list p df) ! i) co_list po
   = po_attainment_spec m df (rows df ! i) co_list po"
  by (simp add: att_step_nth spec_sums) (simp add: att_step_def po_sums_set_att)

lemma fold_att_step:
  "i < length (rows df) \<Longrightarrow>
   (\<forall>po. po_attainment_spec m (fold (att_step m co_list) pos df)
           (rows (fold (att_step m co_list) pos df) ! i) co_list po
         = po_attainment_spec m df (rows df ! i) co_list po)
   \<and> (\<forall>po. attainment (rows (fold (att_step m co_list) pos df) ! i) po
         = (if po \<in> set pos then po_attainment_spec m df (rows df ! i) co_list po
            else attainment (rows df ! i) po))"
proof (induction pos arbitrary: df)
  case Nil
  then show ?case by simp
next
  case (Cons p pos)
  let ?df1 = "att_step m co_list p df"
  have i1: "i < length (rows ?df1)" using Cons.prems by (simp add: length_att_step)
  note IH = Cons.IH[OF i1]
  have a: "attainment (rows ?df1 ! i) po =
            (if po = p then po_attainment_spec m df (rows df ! i) co_list po
             else attainment (rows df ! i) po)" for po
    using Cons.prems by (simp add: att_step_nth attainment_def)
  show ?case
    using IH by (simp add: spec_att_step[OF Cons.prems] a)
qed

lemma zero_column:
  assumes "list_all (\<lambda>co. weight m co po = 0) co_list"
  shows "po_attainment_spec m df row co_list po = 0"
proof -
  have "filter (\<lambda>co. weight m co po > 0) co_list = []"
    using assms by (auto simp: list_all_iff filter_empty_conv)
  then show ?thesis by (simp add: po_attainment_spec_def)
qed

text \<open>
  C2: with a weight matrix that has the twelve PO columns and a row for every CO of
  \<open>co_list\<close>, \<open>calculate_po_attainment\<close> returns the table with, for every student
  and each of PO1..PO12, the attainment
  \<open>sum(achievement * weight) / sum(weight)\<close> over the COs of \<open>co_list\<close> whose weight
  for the PO is positive, and 0 when that denominator is 0; a PO whose weights are all
  zero has attainment 0 for every student.
\<close>

theorem po_attainment_weighted_average:
  assumes "complete_for m co_list"
  shows "\<exists>df'. calculate_po_attainment df m co_list = Inr df'
          \<and> length (rows df') = length (rows df)
          \<and> (\<forall>i<length (rows df). \<forall>po\<in>set po_list.
                attainment (rows df' ! i) po = po_attainment_spec m df (rows df ! i) co_list po
                \<and> (list_all (\<lambda>co. weight m co po = 0) co_list \<longrightarrow> attainment (rows df' ! i) po = 0))"
proof -
  have ok: "calculate_po_attainment df m co_list = Inr (fold (att_step m co_list) po_list df)"
    by (rule calculate_po_attainment_ok[OF assms])
  show ?thesis
    unfolding ok using fold_att_step[of _ df m co_list po_list] zero_column[of m _ co_list df]
    by (auto simp: length_fold_att)
qed

lemma example_matrix_complete: "complete_for example_matrix [''CO1'', ''CO2'']"
  by (simp add: complete_for_def example_matrix_def has_row_def po_list_def)

theorem po_attainment_weighted_average_witness:
  "complete_for example_matrix [''CO1'', ''CO2'']
   \<and> (\<exists>df'. calculate_po_attainment achievement_table example_matrix [''CO1'', ''CO2''] = Inr df'
         \<and> length (rows df') = 1
         \<and> attainment (rows df' ! 0) ''PO1'' = 70
         \<and> attainment (rows df' ! 0) ''PO2'' = 80
         \<and> attainment (rows df' ! 0) ''PO3'' = 0)"
proof -
  from po_attainment_weighted_average[OF example_matrix_complete, of achievement_table]
  obtain df' where
    ok: "calculate_po_attainment achievement_table example_matrix [''CO1'', ''CO2''] = Inr df'" and
    len: "length (rows df') = length (rows achievement_table)" and
    att: "\<And>po. po \<in> set po_list \<Longrightarrow>
           attainment (rows df' ! 0) po
             = po_attainment_spec example_matrix achievement_table (rows achievement_table ! 0)
                 [''CO1'', ''CO2''] po"
    by (auto simp: achievement_table_def)
  have w: "weight example_matrix ''CO1'' ''PO1'' = 1" "weight example_matrix ''CO2'' ''PO1'' = 3"
          "weight example_matrix ''CO1'' ''PO2'' = 0" "weight example_matrix ''CO2'' ''PO2'' = 1"
          "weight example_matrix ''CO1'' ''PO3'' = 0" "weight example_matrix ''CO2'' ''PO3'' = 0"
    by (simp_all add: weight_def example_matrix_def)
  have a: "co_achievement achievement_table (rows achievement_table ! 0) ''CO1'' = 40"
          "co_achievement achievement_table (rows achievement_table ! 0) ''CO2'' = 80"
    by (simp_all add: co_achievement_def row_get_def achievement_table_def)
  have "attainment (rows df' ! 0) ''PO1'' = 70" "attainment (rows df' ! 0) ''PO2'' = 80"
       "attainment (rows df' ! 0) ''PO3'' = 0"
    by (simp_all add: att po_list_def po_attainment_spec_def w a)
  then show ?thesis using ok len example_matrix_complete by (simp add: achievement_table_def)
qed

subsection \<open>A CO without a row in the weight matrix\<close>

lemma co_loop_missing:
  assumes "po \<in> set (po_cols m)" "co \<in> set cs" "\<not> has_row m co"
  shows "co_loop m df row po cs acc = Inl IndexError"
  using assms(2)
proof (induction cs arbitrary: acc)
  case Nil
  then show ?case by simp
next
  case (Cons a cs)
  show ?case
  proof (cases "has_row m a")
    case True
    then have "a \<noteq> co" using assms(3) by auto
    then have "co \<in> set cs" using Cons.prems by simp
    then show ?thesis using Cons.IH True assms(1) by (simp add: lookup_weight_ok Let_def)
  next
    case False
    then show ?thesis using assms(1) by (simp add: lookup_weight_def has_row_def)
  qed
qed

lemma co_loop_no_column:
  assumes "po \<notin> set (po_cols m)" "cs \<noteq> []"
  shows "co_loop m df row po cs acc = Inl KeyError"
  using assms by (cases cs) (simp_all add: lookup_weight_def)

text \<open>
  C3 (as amended): when the student table has at least one row and some CO of
  \<open>co_list\<close> has no row in the weight matrix, \<open>calculate_po_attainment\<close> fails with a
  lookup error: IndexError from \<open>iloc[0]\<close>, or KeyError when the matrix has no PO1
  column either. It neither skips the CO nor returns a default.
\<close>

theorem missing_co_row_raises:
  assumes "rows df \<noteq> []" "co \<in> set co_list" "\<not> has_row m co"
  shows "calculate_po_attainment df m co_list
         = Inl (if ''PO1'' \<in> set (po_cols m) then IndexError else KeyError)"
proof -
  let ?df0 = "set_column (''PO1'' @ ''_attainment'') (\<lambda>_. 0) df"
  obtain r rs where r: "rows ?df0 = r # rs"
    using assms(1) by (cases "rows df") (auto simp: rows_set_column)
  have ne: "co_list \<noteq> []" using assms(2) by auto
  have "co_loop m ?df0 r ''PO1'' co_list (0, 0)
        = Inl (if ''PO1'' \<in> set (po_cols m) then IndexError else KeyError)"
    using co_loop_missing[OF _ assms(2,3)] co_loop_no_column[OF _ ne] by auto
  then have "row_loop m ?df0 ''PO1'' co_list (rows ?df0)
        = Inl (if ''PO1'' \<in> set (po_cols m) then IndexError else KeyError)"
    unfolding r by simp
  then show ?thesis
    unfolding calculate_po_attainment_def po_list_def po_loop.simps Let_def by simp
qed

theorem missing_co_row_raises_witness:
  "rows achievement_table \<noteq> []
   \<and> \<not> has_row example_matrix ''CO9''
   \<and> calculate_po_attainment achievement_table example_matrix [''CO1'', ''CO9''] = Inl IndexError"
proof -
  have a: "rows achievement_table \<noteq> []" by (simp add: achievement_table_def)
  have b: "''CO9'' \<in> set [''CO1'', ''CO9'']" by simp
  have c: "\<not> has_row example_matrix ''CO9''" by (simp add: has_row_def example_matrix_def)
  have d: "''PO1'' \<in> set (po_cols example_matrix)" by (simp add: example_matrix_def po_list_def)
  from missing_co_row_raises[OF a b c] show ?thesis using a c d by simp
qed

text \<open>
  The claim as stated fails for a table without rows: the weight is looked up inside the
  loop over the students, so nothing is looked up and the table comes back with twelve
  empty attainment columns, although CO9 has no row in the matrix.
\<close>

theorem missing_co_row_empty_table_counterexample:
  "\<not> has_row example_matrix ''CO9''
   \<and> calculate_po_attainment empty_table example_matrix [''CO1'', ''CO9'']
     = Inr \<lparr>columns = map (\<lambda>po. po @ ''_attainment'') po_list, rows = []\<rparr>"
  by (simp add: calculate_po_attainment_def po_list_def set_column_def Let_def
      empty_table_def has_row_def example_matrix_def)

section \<open>Clustering\<close>

text \<open>
  C8: when the table has no \<open>{CO}_achievement\<close> column for a CO of \<open>co_list\<close> and no
  \<open>{PO}_attainment\<close> column for a PO of the PO list, \<open>student_clustering\<close> returns the
  table as it is with an empty summary, whatever the scaler and the clustering would
  compute, and the analyzer's scaler and clustering stay as they were.
\<close>

theorem clustering_no_features_noop:
  assumes "list_all (\<lambda>co. co @ ''_achievement'' \<notin> set (columns df)) co_list"
    and "list_all (\<lambda>po. po @ ''_attainment'' \<notin> set (columns df)) pos"
  shows "student_clustering fit_transform fit_predict self df co_list pos = Inr (df, [], self)"
proof -
  have "filter (\<lambda>co. co @ ''_achievement'' \<in> set (columns df)) co_list = []"
       "filter (\<lambda>po. po @ ''_attainment'' \<in> set (columns df)) pos = []"
    using assms by (auto simp: list_all_iff filter_empty_conv)
  then show ?thesis by (simp add: student_clustering_def)
qed

theorem clustering_no_features_noop_witness:
  "list_all (\<lambda>co. co @ ''_achievement'' \<notin> set (columns marks_table)) [''CO1'', ''CO2'']
   \<and> list_all (\<lambda>po. po @ ''_attainment'' \<notin> set (columns marks_table)) po_list
   \<and> student_clustering raising_transform raising_predict fresh_analyzer marks_table
       [''CO1'', ''CO2''] po_list = Inr (marks_table, [], fresh_analyzer)"
proof -
  have a: "list_all (\<lambda>co. co @ ''_achievement'' \<notin> set (columns marks_table)) [''CO1'', ''CO2'']"
    by (simp add: marks_table_def)
  have b: "list_all (\<lambda>po. po @ ''_attainment'' \<notin> set (columns marks_table)) po_list"
    by (simp add: marks_table_def po_list_def)
  from clustering_no_features_noop[OF a b, of raising_transform raising_predict fresh_analyzer]
  show ?thesis using a b by blast
qed

section \<open>The performance group shown for a cluster\<close>

lemma sort_012: "sort [0, 1, 2 :: int] = [0, 1, 2]"
  by (simp add: sort_key_def insort_key.simps)

text \<open>
  C6: three students with grade points 1.0, 3.0 and 4.0 are clustered, and the clustering
  numbers the weakest student's cluster 0. Ranked by mean grade point that cluster is the
  low group, and the heading of the ML insights tab, which reads the mean, says so; but
  the metric of the student and the bar chart look the name up by the raw cluster id and
  show the high performers.
\<close>

theorem performance_group_raw_id_on_ranked_clusters:
  "(case student_clustering unscaled clusters_in_row_order fresh_analyzer graded_table [''CO1''] po_list of
      Inl e \<Rightarrow> False
    | Inr (df, cluster_analysis, self) \<Rightarrow>
        map performance_cluster (rows df) = [Some 0, Some 1, Some 2]
        \<and> map (\<lambda>(cluster_id, analysis). (cluster_id, avg_cgpa analysis)) cluster_analysis
            = [(0, Some 1), (1, Some 3), (2, Some 4)]
        \<and> map (ranked_label df) [0, 1, 2] = [NeedsImprovement, AveragePerformer, HighPerformer]
        \<and> expander_groups cluster_analysis
            = [(0, NeedsImprovement), (1, AveragePerformer), (2, HighPerformer)]
        \<and> performance_group_metric df (rows df ! 0) = Some (Inr HighPerformer)
        \<and> cluster_labels df = Some (Inr [HighPerformer, AveragePerformer, NeedsImprovement]))"
proof -
  let ?df = "graded_table\<lparr>columns := [''CO1_achievement'', ''performance_cluster''],
      rows := [scenario_row\<lparr>grade_points := Some 1, num := (\<lambda>_. 20), performance_cluster := Some 0\<rparr>,
               scenario_row\<lparr>grade_points := Some 3, num := (\<lambda>_. 60), performance_cluster := Some 1\<rparr>,
               scenario_row\<lparr>grade_points := Some 4, num := (\<lambda>_. 95), performance_cluster := Some 2\<rparr>]\<rparr>"
  let ?analysis = "[(0::int, \<lparr>cluster_size = 1, avg_cgpa = Some 1, characteristics = [(''CO1_achievement'', Some 20)]\<rparr>),
                    (1, \<lparr>cluster_size = 1, avg_cgpa = Some 3, characteristics = [(''CO1_achievement'', Some 60)]\<rparr>),
                    (2, \<lparr>cluster_size = 1, avg_cgpa = Some 4, characteristics = [(''CO1_achievement'', Some 95)]\<rparr>)]"
  let ?self = "fresh_analyzer\<lparr>scaler_fit_on := Some [[20], [60], [95]], kmeans_fit_on := Some [[20], [60], [95]]\<rparr>"
  have names: "map (\<lambda>co. co @ ''_achievement'')
                 (filter (\<lambda>co. co @ ''_achievement'' \<in> set (columns graded_table)) [''CO1''])
               @ map (\<lambda>po. po @ ''_attainment'')
                   (filter (\<lambda>po. po @ ''_attainment'' \<in> set (columns graded_table)) po_list)
               = [''CO1_achievement'']"
    by (simp add: graded_table_def po_list_def)
  have one: "mean_f [Some x] = Some x" for x
    by (simp add: mean_f_def)
  have run: "student_clustering unscaled clusters_in_row_order fresh_analyzer graded_table [''CO1''] po_list
             = Inr (?df, ?analysis, ?self)"
    unfolding student_clustering_def names Let_def
    by (simp add: graded_table_def unscaled_def clusters_in_row_order_def
        add_column_def analyze_cluster_characteristics_def one upt_rec)
  have m: "cluster_mean ?df 0 = Some 1" "cluster_mean ?df 1 = Some 3" "cluster_mean ?df 2 = Some 4"
    by (simp_all add: cluster_mean_def mean_f_def)
  have r: "map (ranked_label ?df) [0, 1, 2] = [NeedsImprovement, AveragePerformer, HighPerformer]"
    by (simp add: ranked_label_def m gt_f_def)
  have e: "expander_groups ?analysis = [(0, NeedsImprovement), (1, AveragePerformer), (2, HighPerformer)]"
    by (simp add: expander_groups_def expander_group_def ge_f_def)
  have g: "performance_group_metric ?df (rows ?df ! 0) = Some (Inr HighPerformer)"
    by (simp add: performance_group_metric_def py_index_def cluster_names_def)
  have l: "cluster_labels ?df = Some (Inr [HighPerformer, AveragePerformer, NeedsImprovement])"
    by (simp add: cluster_labels_def py_index_def cluster_names_def sort_012)
  show ?thesis
    unfolding run using r e g l by simp
qed


end
